theory Spec2Isabelle
  imports Complex_Main
begin

section \<open>JavaScript values\<close>

text \<open>
  The monitor reads untyped data: its configuration comes from JSON, the metric values
  from the supervisor's process list. The code tests that data at run time
  (\<^verbatim>\<open>!probe\<close>, \<^verbatim>\<open>=== true\<close>, \<^verbatim>\<open>!= null\<close>, \<^verbatim>\<open>Array.isArray\<close>), so the
  model keeps it untyped: a datatype of JSON-shaped JavaScript values.

  Numbers are the finite values (as exact rationals; rounding to a double is not
  modelled, and \<open>-0\<close> is \<open>0\<close>), the two infinities and NaN. Strings are \<open>string\<close>.
  An object is the list of its own properties in the order \<^verbatim>\<open>Object.keys\<close> gives them.

  A property read with a computed key also finds what the value inherits: on a plain
  object, the members of \<^verbatim>\<open>Object.prototype\<close>. Such a member is a built-in function (or,
  under \<^verbatim>\<open>__proto__\<close>, the prototype itself): it is no JSON value, so a read gives a
  \<open>found\<close>, a value or the name of the inherited member.
\<close>

datatype jsnum = NaN | NegInf | Fin rat | PosInf

datatype jsval =
    JUndefined
  | JNull
  | JBool bool
  | JNum jsnum
  | JStr string
  | JArr "jsval list"
  | JObj "(string \<times> jsval) list"

datatype error = TypeError | SyntaxError | Failure string

datatype found = Val jsval | Builtin string

text \<open>
  The built-ins of the language and the history store (\<^verbatim>\<open>./Snapshot\<close>, which is not
  among the sources) are parameters of the model: every theorem below holds for each
  choice of them.
  \<^item> \<open>parseFloat\<close> is \<^verbatim>\<open>Number.parseFloat\<close>;
  \<^item> \<open>ToString\<close> is the conversion of a value that is not a string to a string
    (\<^verbatim>\<open>String(v)\<close>), \<open>StringToNumber\<close> the conversion of a string to a number;
  \<^item> \<open>JSON_stringify v\<close> is \<^verbatim>\<open>JSON.stringify(v, undefined, 4)\<close>;
  \<^item> \<open>RegExp_new e\<close> is the error \<^verbatim>\<open>new RegExp(e)\<close> throws, if it throws; a compiled
    expression is represented by the pattern it was compiled from, and
    \<open>RegExp_test e s\<close> is \<^verbatim>\<open>new RegExp(e).test(s)\<close>;
  \<^item> \<open>snapshot_last\<close> is \<^verbatim>\<open>Snapshot.last\<close>, a function of the calls the store has
    received so far;
  \<^item> \<open>GetV o k\<close> is \<^verbatim>\<open>o[k]\<close> for a value \<open>o\<close> that is an array, a string, a number or
    a boolean (its indices, its length, the members of its prototype).
\<close>

datatype snap_call =
    Push jsval string string bool jsval
  | Send

record host =
  parseFloat :: "jsval \<Rightarrow> jsnum"
  ToString :: "jsval \<Rightarrow> string"
  StringToNumber :: "string \<Rightarrow> jsnum"
  JSON_stringify :: "jsval \<Rightarrow> jsval"
  RegExp_new :: "jsval \<Rightarrow> error option"
  RegExp_test :: "jsval \<Rightarrow> jsval \<Rightarrow> bool"
  snapshot_last :: "snap_call list \<Rightarrow> jsval \<Rightarrow> string \<Rightarrow> jsval"
  GetV :: "jsval \<Rightarrow> string \<Rightarrow> found"

subsection \<open>Truthiness, property reads, equality\<close>

fun truthy :: "jsval \<Rightarrow> bool" where
  "truthy JUndefined = False"
| "truthy JNull = False"
| "truthy (JBool b) = b"
| "truthy (JNum n) = (n \<noteq> NaN \<and> n \<noteq> Fin 0)"
| "truthy (JStr s) = (s \<noteq> [])"
| "truthy (JArr xs) = True"
| "truthy (JObj kvs) = True"

text \<open>\<^verbatim>\<open>x == null\<close>: true of \<^verbatim>\<open>null\<close> and \<^verbatim>\<open>undefined\<close> only.\<close>

fun nullish :: "jsval \<Rightarrow> bool" where
  "nullish JUndefined = True"
| "nullish JNull = True"
| "nullish v = False"

text \<open>
  \<^verbatim>\<open>o.k\<close> for the names the monitor reads with a fixed key (\<^verbatim>\<open>value\<close>, \<^verbatim>\<open>direct\<close>,
  \<^verbatim>\<open>exclude\<close>, \<^verbatim>\<open>op\<close>, \<^verbatim>\<open>target\<close>, \<^verbatim>\<open>noNotify\<close>, \<^verbatim>\<open>ifChanged\<close>, \<^verbatim>\<open>noHistory\<close>,
  \<^verbatim>\<open>url\<close> and the keys of \<^verbatim>\<open>CONFIG_KEYS\<close>), where \<open>o\<close> is not null or undefined. None
  of these names is an index, \<^verbatim>\<open>length\<close> or a member of a prototype, so the read finds
  an own property of an object or nothing.
\<close>

fun prop_of :: "jsval \<Rightarrow> string \<Rightarrow> jsval" where
  "prop_of (JObj kvs) k = (case map_of kvs k of None \<Rightarrow> JUndefined | Some v \<Rightarrow> v)"
| "prop_of v k = JUndefined"

text \<open>\<^verbatim>\<open>o[k]\<close> in general: reading a property of null or undefined throws.\<close>

definition getprop :: "jsval \<Rightarrow> string \<Rightarrow> error + jsval" where
  "getprop obj k = (if nullish obj then Inl TypeError else Inr (prop_of obj k))"

text \<open>
  The names every plain object inherits from \<^verbatim>\<open>Object.prototype\<close>, and \<^verbatim>\<open>o[k]\<close> for
  a computed key \<open>k\<close>: an own property first, then an inherited member.
\<close>

definition Object_prototype :: "string list" where
  "Object_prototype =
     [''constructor'', ''__defineGetter__'', ''__defineSetter__'', ''hasOwnProperty'',
      ''__lookupGetter__'', ''__lookupSetter__'', ''isPrototypeOf'', ''propertyIsEnumerable'',
      ''toString'', ''valueOf'', ''__proto__'', ''toLocaleString'']"

definition get_member :: "host \<Rightarrow> jsval \<Rightarrow> string \<Rightarrow> error + found" where
  "get_member h obj k =
     (if nullish obj then Inl TypeError
      else (case obj of
              JObj kvs \<Rightarrow>
                (case map_of kvs k of
                   Some v \<Rightarrow> Inr (Val v)
                 | None \<Rightarrow>
                     if k \<in> set Object_prototype then Inr (Builtin k) else Inr (Val JUndefined))
            | _ \<Rightarrow> Inr (GetV h obj k)))"

text \<open>
  A rule is what \<^verbatim>\<open>config.metric[key]\<close> found. An inherited member is truthy and has
  none of the properties a rule is read for.
\<close>

fun found_truthy :: "found \<Rightarrow> bool" where
  "found_truthy (Val v) = truthy v"
| "found_truthy (Builtin k) = True"

fun rule_get :: "found \<Rightarrow> string \<Rightarrow> jsval" where
  "rule_get (Val v) k = prop_of v k"
| "rule_get (Builtin b) k = JUndefined"

fun isArray :: "jsval \<Rightarrow> bool" where
  "isArray (JArr xs) = True"
| "isArray v = False"

fun num_eq :: "jsnum \<Rightarrow> jsnum \<Rightarrow> bool" where
  "num_eq NaN b = False"
| "num_eq a NaN = False"
| "num_eq a b = (a = b)"

text \<open>
  \<^verbatim>\<open>a === b\<close>. Two objects are equal when they are the same reference; the operands
  compared here come from different allocations (the configuration, the process list of
  this cycle, the history store), so two objects or two arrays are never equal.
\<close>

fun strict_eq :: "jsval \<Rightarrow> jsval \<Rightarrow> bool" where
  "strict_eq JUndefined JUndefined = True"
| "strict_eq JNull JNull = True"
| "strict_eq (JBool a) (JBool b) = (a = b)"
| "strict_eq (JNum a) (JNum b) = num_eq a b"
| "strict_eq (JStr a) (JStr b) = (a = b)"
| "strict_eq a b = False"

text \<open>\<^verbatim>\<open>xs.indexOf(x)\<close>: the first index whose element is strictly equal, or -1.\<close>

fun indexOf_from :: "int \<Rightarrow> jsval list \<Rightarrow> jsval \<Rightarrow> int" where
  "indexOf_from i [] x = -1"
| "indexOf_from i (y # ys) x = (if strict_eq y x then i else indexOf_from (i + 1) ys x)"

definition indexOf :: "jsval list \<Rightarrow> jsval \<Rightarrow> int" where
  "indexOf xs x = indexOf_from 0 xs x"

subsection \<open>Conversions and comparison\<close>

definition js_string :: "host \<Rightarrow> jsval \<Rightarrow> string" where
  "js_string h v = (case v of JStr s \<Rightarrow> s | _ \<Rightarrow> ToString h v)"

text \<open>An array or a plain object converts to a primitive through its \<^verbatim>\<open>toString\<close>.\<close>

definition ToPrimitive :: "host \<Rightarrow> jsval \<Rightarrow> jsval" where
  "ToPrimitive h v =
     (case v of JArr xs \<Rightarrow> JStr (ToString h v) | JObj kvs \<Rightarrow> JStr (ToString h v) | _ \<Rightarrow> v)"

definition ToNumber :: "host \<Rightarrow> jsval \<Rightarrow> jsnum" where
  "ToNumber h v =
     (case ToPrimitive h v of
        JUndefined \<Rightarrow> NaN
      | JNull \<Rightarrow> Fin 0
      | JBool b \<Rightarrow> Fin (if b then 1 else 0)
      | JNum n \<Rightarrow> n
      | JStr s \<Rightarrow> StringToNumber h s
      | _ \<Rightarrow> NaN)"

text \<open>Numbers compare to true, false or, when one is NaN, undefined (\<open>None\<close>).\<close>

fun num_lt :: "jsnum \<Rightarrow> jsnum \<Rightarrow> bool option" where
  "num_lt NaN b = None"
| "num_lt a NaN = None"
| "num_lt NegInf NegInf = Some False"
| "num_lt NegInf b = Some True"
| "num_lt (Fin a) NegInf = Some False"
| "num_lt (Fin a) (Fin b) = Some (a < b)"
| "num_lt (Fin a) PosInf = Some True"
| "num_lt PosInf b = Some False"

text \<open>Strings compare by their code units, a proper prefix being smaller.\<close>

fun str_lt :: "string \<Rightarrow> string \<Rightarrow> bool" where
  "str_lt [] [] = False"
| "str_lt [] (b # bs) = True"
| "str_lt (a # as) [] = False"
| "str_lt (a # as) (b # bs) =
     (if a = b then str_lt as bs else (of_char a :: nat) < of_char b)"

text \<open>The relational comparison behind \<^verbatim>\<open>a < b\<close>.\<close>

definition js_lt :: "host \<Rightarrow> jsval \<Rightarrow> jsval \<Rightarrow> bool option" where
  "js_lt h a b =
     (case (ToPrimitive h a, ToPrimitive h b) of
        (JStr s, JStr t) \<Rightarrow> Some (str_lt s t)
      | (px, py) \<Rightarrow> num_lt (ToNumber h px) (ToNumber h py))"

fun is_object :: "jsval \<Rightarrow> bool" where
  "is_object (JArr xs) = True"
| "is_object (JObj kvs) = True"
| "is_object v = False"

text \<open>
  \<^verbatim>\<open>a == b\<close>: null and undefined equal each other and nothing else; two objects are
  compared by reference; otherwise a boolean becomes a number, an object a primitive,
  and a number is compared with a string as numbers.
\<close>

definition loose_operand :: "host \<Rightarrow> jsval \<Rightarrow> jsval" where
  "loose_operand h v =
     (case v of JBool b \<Rightarrow> JNum (Fin (if b then 1 else 0)) | _ \<Rightarrow> ToPrimitive h v)"

definition loose_eq :: "host \<Rightarrow> jsval \<Rightarrow> jsval \<Rightarrow> bool" where
  "loose_eq h a b =
     (if nullish a \<or> nullish b then nullish a \<and> nullish b
      else if is_object a \<and> is_object b then False
      else (case (loose_operand h a, loose_operand h b) of
              (JStr s, JStr t) \<Rightarrow> s = t
            | (x, y) \<Rightarrow> num_eq (ToNumber h x) (ToNumber h y)))"

section \<open>The operator table\<close>

text \<open>
  \<^verbatim>\<open>OP\<close> of \<^verbatim>\<open>Health.ts\<close>, an object literal with six own properties: \<open>OP h k\<close> is
  the comparison function when \<open>k\<close> is one of them and \<open>None\<close> otherwise.
\<close>

definition OP :: "host \<Rightarrow> string \<Rightarrow> (jsval \<Rightarrow> jsval \<Rightarrow> bool) option" where
  "OP h k =
     (if k = ''<'' then Some (\<lambda>a b. js_lt h a b = Some True)
      else if k = ''>'' then Some (\<lambda>a b. js_lt h b a = Some True)
      else if k = ''='' then Some (\<lambda>a b. strict_eq a b)
      else if k = ''<='' then Some (\<lambda>a b. js_lt h b a = Some False)
      else if k = ''>='' then Some (\<lambda>a b. js_lt h a b = Some False)
      else if k = ''!='' then Some (\<lambda>a b. \<not> loose_eq h a b)
      else None)"

text \<open>
  \<^verbatim>\<open>k in OP\<close> follows the prototype chain: it holds of the six operators and of the
  names \<^verbatim>\<open>OP\<close> inherits.
\<close>

definition in_OP :: "host \<Rightarrow> string \<Rightarrow> bool" where
  "in_OP h k = (OP h k \<noteq> None \<or> k \<in> set Object_prototype)"

text \<open>
  What \<^verbatim>\<open>bad\<close> can hold after line 299: it is still undefined, it is a boolean, or it
  is some other value, always a truthy one here (a string, an object or a function).
\<close>

datatype verdict = Bad_undefined | Bad_bool bool | Bad_other

fun verdict_truthy :: "verdict \<Rightarrow> bool" where
  "verdict_truthy Bad_undefined = False"
| "verdict_truthy (Bad_bool b) = b"
| "verdict_truthy Bad_other = True"

text \<open>
  \<^verbatim>\<open>OP[k](v, target)\<close> for a name \<open>k\<close> that is none of the six, with \<^verbatim>\<open>OP\<close> as
  \<^verbatim>\<open>this\<close> and a target that is not a function:
  \<^item> \<^verbatim>\<open>hasOwnProperty\<close> and \<^verbatim>\<open>propertyIsEnumerable\<close> say whether \<open>v\<close>, as a property
    key, is one of the six;
  \<^item> \<^verbatim>\<open>isPrototypeOf\<close> is false, \<^verbatim>\<open>OP\<close> being the prototype of nothing;
  \<^item> \<^verbatim>\<open>toString\<close> and \<^verbatim>\<open>toLocaleString\<close> give the string \<^verbatim>\<open>[object Object]\<close>,
    \<^verbatim>\<open>valueOf\<close> gives \<^verbatim>\<open>OP\<close>, \<^verbatim>\<open>constructor\<close> an object;
  \<^item> \<^verbatim>\<open>__defineGetter__\<close> and \<^verbatim>\<open>__defineSetter__\<close> throw, their second argument not
    being a function;
  \<^item> \<^verbatim>\<open>__lookupGetter__\<close> and \<^verbatim>\<open>__lookupSetter__\<close> give the accessor of
    \<^verbatim>\<open>__proto__\<close>, the one accessor \<^verbatim>\<open>OP\<close> has, when \<open>v\<close> is that key, and undefined
    otherwise;
  \<^item> \<^verbatim>\<open>OP["__proto__"]\<close> is an object and any other name is undefined: the call throws.
\<close>

definition inherited_call :: "host \<Rightarrow> string \<Rightarrow> jsval \<Rightarrow> error + verdict" where
  "inherited_call h k v =
     (if k = ''hasOwnProperty'' \<or> k = ''propertyIsEnumerable''
      then Inr (Bad_bool (OP h (js_string h v) \<noteq> None))
      else if k = ''isPrototypeOf'' then Inr (Bad_bool False)
      else if k = ''toString'' \<or> k = ''toLocaleString'' \<or> k = ''valueOf'' \<or> k = ''constructor''
      then Inr Bad_other
      else if k = ''__lookupGetter__'' \<or> k = ''__lookupSetter__''
      then Inr (if js_string h v = ''__proto__'' then Bad_other else Bad_undefined)
      else Inl TypeError)"

definition call_OP :: "host \<Rightarrow> string \<Rightarrow> jsval \<Rightarrow> jsval \<Rightarrow> error + verdict" where
  "call_OP h k v target =
     (case OP h k of
        Some f \<Rightarrow> Inr (Bad_bool (f v target))
      | None \<Rightarrow> inherited_call h k v)"

section \<open>The monitor's state\<close>

text \<open>
  One record holds the fields of \<^verbatim>\<open>Health\<close> and what its collaborators have received:
  \<^item> \<open>config\<close> is \<^verbatim>\<open>_config\<close>, the effective configuration, as the function from a
    property name to its value (\<open>JUndefined\<close> for an absent property);
  \<^item> \<open>messageExcludeExps\<close> is \<^verbatim>\<open>_messageExcludeExps\<close>, the compiled expressions;
  \<^item> \<open>holdTill\<close> is \<^verbatim>\<open>_holdTill\<close>, a time in milliseconds or \<open>None\<close> for \<^verbatim>\<open>null\<close>;
  \<^item> \<open>on_exception\<close> and \<open>on_msg\<close> say whether \<^verbatim>\<open>go\<close> subscribed to those channels;
  \<^item> \<open>sent\<close> lists the calls of \<^verbatim>\<open>_mail.send\<close>, \<open>snapshot\<close> the calls the history
    store received, \<open>logged\<close> the lines written by \<^verbatim>\<open>info\<close>, \<^verbatim>\<open>error\<close> and
    \<^verbatim>\<open>console.error\<close>.
  Subjects and bodies are not rendered: a mail is the data its template is filled with.
\<close>

record bus_process =
  proc_name :: string
  proc_pm_id :: jsval
  pm_err_log_path :: "string option"
  pm_out_log_path :: "string option"

record packet =
  process :: bus_process
  manually :: jsval
  event :: string
  data :: jsval

record row =
  row_app :: string
  row_pm_id :: jsval
  row_key :: string
  row_v :: jsval
  row_prev :: jsval
  row_target :: jsval

datatype content =
    Lifecycle packet
  | Exception packet
  | Message packet jsval
  | Alerts "row list"

record mail_call =
  content :: content
  attachments :: "string list"

datatype logline =
    Info_fetching jsval
  | Info_applying string
  | Error_fetch error
  | Info_mail_send content
  | Error_mail error
  | Console_not_a_number string

record health =
  config :: "string \<Rightarrow> jsval"
  messageExcludeExps :: "jsval list"
  holdTill :: "int option"
  on_exception :: bool
  on_msg :: bool
  sent :: "mail_call list"
  snapshot :: "snap_call list"
  logged :: "logline list"

definition CONFIG_KEYS :: "string list" where
  "CONFIG_KEYS = [''events'', ''metric'', ''exceptions'', ''messages'',
     ''messageExcludeExps'', ''appsExcluded'', ''metricIntervalS'', ''addLogs'']"

definition info :: "logline \<Rightarrow> health \<Rightarrow> health" where
  "info l st = st\<lparr>logged := logged st @ [l]\<rparr>"

section \<open>Remote configuration\<close>

text \<open>
  \<^verbatim>\<open>configChanged\<close>: the list is emptied first, then every pattern is compiled and the
  result assigned. \<^verbatim>\<open>new RegExp\<close> throws on a malformed pattern; the assignment of the
  compiled list then does not happen, and the error leaves with the state as it is.
\<close>

fun compile_all :: "host \<Rightarrow> jsval list \<Rightarrow> error + jsval list" where
  "compile_all h [] = Inr []"
| "compile_all h (e # es) =
     (case RegExp_new h e of
        Some ex \<Rightarrow> Inl ex
      | None \<Rightarrow> (case compile_all h es of Inl ex \<Rightarrow> Inl ex | Inr rs \<Rightarrow> Inr (e # rs)))"

definition configChanged :: "host \<Rightarrow> health \<Rightarrow> (error \<times> health) + health" where
  "configChanged h st =
     (let st1 = st\<lparr>messageExcludeExps := []\<rparr> in
      case config st1 ''messageExcludeExps'' of
        JArr es \<Rightarrow>
          (case compile_all h es of
             Inl ex \<Rightarrow> Inl (ex, st1)
           | Inr rs \<Rightarrow> Inr (st1\<lparr>messageExcludeExps := rs\<rparr>))
      | _ \<Rightarrow> Inr st1)"

text \<open>
  The loop over \<^verbatim>\<open>CONFIG_KEYS\<close>. Reading \<^verbatim>\<open>config[key]\<close> throws when the payload is
  \<^verbatim>\<open>null\<close>; a truthy value is assigned and the key logged.
\<close>

fun map_keys :: "string list \<Rightarrow> jsval \<Rightarrow> health \<Rightarrow> (error \<times> health) + health" where
  "map_keys [] payload st = Inr st"
| "map_keys (key # keys) payload st =
     (case getprop payload key of
        Inl ex \<Rightarrow> Inl (ex, st)
      | Inr v \<Rightarrow>
          if truthy v
          then map_keys keys payload (info (Info_applying key) (st\<lparr>config := (config st)(key := v)\<rparr>))
          else map_keys keys payload st)"

text \<open>
  What \<^verbatim>\<open>await fetch.fetch()\<close> and \<^verbatim>\<open>JSON.parse(json)\<close> gave: the request failed, the
  body was not JSON, or the parsed payload.
\<close>

datatype fetched = FetchFailed error | ParseFailed error | Parsed jsval

definition caught :: "error \<Rightarrow> health \<Rightarrow> health" where
  "caught ex st = info (Error_fetch ex) st"

definition fetchConfig :: "host \<Rightarrow> fetched \<Rightarrow> health \<Rightarrow> health" where
  "fetchConfig h res st =
     (case getprop (config st ''webConfig'') ''url'' of
        Inl ex \<Rightarrow> caught ex st
      | Inr url \<Rightarrow>
          (let st1 = info (Info_fetching url) st in
           case res of
             FetchFailed ex \<Rightarrow> caught ex st1
           | ParseFailed ex \<Rightarrow> caught ex st1
           | Parsed payload \<Rightarrow>
               (case map_keys CONFIG_KEYS payload st1 of
                  Inl (ex, st2) \<Rightarrow> caught ex st2
                | Inr st2 \<Rightarrow>
                    (case configChanged h st2 of
                       Inl (ex, st3) \<Rightarrow> caught ex st3
                     | Inr st3 \<Rightarrow> st3))))"

section \<open>Exclusion, the alert gate and the event handlers\<close>

fun elems :: "jsval \<Rightarrow> jsval list" where
  "elems (JArr xs) = xs"
| "elems v = []"

definition isAppExcluded :: "health \<Rightarrow> string \<Rightarrow> bool" where
  "isAppExcluded st app =
     (app = ''pm2-health'' \<or>
      (isArray (config st ''appsExcluded'') \<and>
       indexOf (elems (config st ''appsExcluded'')) (JStr app) \<noteq> -1))"

text \<open>
  \<^verbatim>\<open>mail\<close>, at the time \<open>now\<close>; \<open>outcome\<close> is the error \<^verbatim>\<open>_mail.send\<close> fails with, if
  it is called and fails.
\<close>

definition mail :: "int \<Rightarrow> error option \<Rightarrow> mail_call \<Rightarrow> health \<Rightarrow> health" where
  "mail now outcome m st =
     (if (case holdTill st of None \<Rightarrow> False | Some t \<Rightarrow> now < t) then st
      else (case outcome of
              None \<Rightarrow> info (Info_mail_send (content m)) (st\<lparr>sent := sent st @ [m]\<rparr>)
            | Some ex \<Rightarrow> info (Error_mail ex) (st\<lparr>sent := sent st @ [m]\<rparr>)))"

definition LOGS :: "(bus_process \<Rightarrow> string option) list" where
  "LOGS = [pm_err_log_path, pm_out_log_path]"

text \<open>
  The handler of \<^verbatim>\<open>process:event\<close> up to its call of \<^verbatim>\<open>mail\<close>: the mail it builds,
  or \<open>None\<close> where it returns early. An attachment is the path of the log file.
\<close>

definition lifecycle_alert :: "health \<Rightarrow> packet \<Rightarrow> mail_call option" where
  "lifecycle_alert st d =
     (if truthy (manually d) \<or> isAppExcluded st (proc_name (process d)) then None
      else if isArray (config st ''events'') \<and>
              indexOf (elems (config st ''events'')) (JStr (event d)) = -1 then None
      else Some \<lparr>content = Lifecycle d,
                 attachments =
                   concat (map (\<lambda>e. case e (process d) of
                                       None \<Rightarrow> []
                                     | Some path \<Rightarrow>
                                         if strict_eq (config st ''addLogs'') (JBool True) \<and> path \<noteq> []
                                         then [path] else [])
                                LOGS)\<rparr>)"

definition on_process_event :: "int \<Rightarrow> error option \<Rightarrow> packet \<Rightarrow> health \<Rightarrow> health" where
  "on_process_event now outcome d st =
     (case lifecycle_alert st d of None \<Rightarrow> st | Some m \<Rightarrow> mail now outcome m st)"

definition on_process_exception :: "int \<Rightarrow> error option \<Rightarrow> packet \<Rightarrow> health \<Rightarrow> health" where
  "on_process_exception now outcome d st =
     (if isAppExcluded st (proc_name (process d)) then st
      else mail now outcome \<lparr>content = Exception d, attachments = []\<rparr> st)"

definition on_process_msg :: "host \<Rightarrow> int \<Rightarrow> error option \<Rightarrow> packet \<Rightarrow> health \<Rightarrow> health" where
  "on_process_msg h now outcome d st =
     (if isAppExcluded st (proc_name (process d)) then st
      else (let json = JSON_stringify h (data d) in
            if list_ex (\<lambda>e. RegExp_test h e json) (messageExcludeExps st) then st
            else mail now outcome \<lparr>content = Message d json, attachments = []\<rparr> st))"

text \<open>
  \<^verbatim>\<open>go\<close> subscribes to \<^verbatim>\<open>process:event\<close> always, and to the two other channels when
  their flag is truthy at that moment; the bus then calls the handlers subscribed.
\<close>

definition subscribe :: "health \<Rightarrow> health" where
  "subscribe st =
     st\<lparr>on_exception := truthy (config st ''exceptions''),
        on_msg := truthy (config st ''messages'')\<rparr>"

datatype bus_event = Process_event packet | Process_exception packet | Process_msg packet

fun bus :: "host \<Rightarrow> int \<Rightarrow> error option \<Rightarrow> bus_event \<Rightarrow> health \<Rightarrow> health" where
  "bus h now outcome (Process_event d) st = on_process_event now outcome d st"
| "bus h now outcome (Process_exception d) st =
     (if on_exception st then on_process_exception now outcome d st else st)"
| "bus h now outcome (Process_msg d) st =
     (if on_msg st then on_process_msg h now outcome d st else st)"

section \<open>The probe evaluator\<close>

text \<open>
  An entry of the supervisor's process list, with the fields \<^verbatim>\<open>testProbes\<close> reads.
  \<open>pm2_env\<close> and \<open>monit\<close> are \<open>None\<close> when the entry has none; \<open>axm_monitor\<close> is
  the object of custom metrics, \<open>None\<close> when absent; \<open>pm2_version\<close> and
  \<open>node_version\<close> are \<^verbatim>\<open>_pm2_version\<close> and \<^verbatim>\<open>node_version\<close>.
\<close>

record sysmonit =
  memory :: jsnum
  cpu :: jsval

record env =
  axm_monitor :: "(string \<times> jsval) list option"
  pm2_version :: jsval
  node_version :: jsval

record descr =
  name :: string
  pm_id :: jsval
  pm2_env :: "env option"
  monit :: "sysmonit option"

text \<open>\<^verbatim>\<open>x / 1048576\<close> on a number.\<close>

fun MiB :: "jsnum \<Rightarrow> jsnum" where
  "MiB (Fin a) = Fin (a / 1048576)"
| "MiB n = n"

text \<open>\<^verbatim>\<open>o[k] = v\<close> on an object: the value is replaced in place, or the key added last.\<close>

fun put :: "string \<Rightarrow> jsval \<Rightarrow> (string \<times> jsval) list \<Rightarrow> (string \<times> jsval) list" where
  "put k v [] = [(k, v)]"
| "put k v ((k', v') # kvs) = (if k = k' then (k, v) # kvs else (k', v') # put k v kvs)"

text \<open>
  The metrics of one entry (lines 258 to 275): \<^verbatim>\<open>e.pm2_env["axm_monitor"]\<close> throws when
  the entry has no \<^verbatim>\<open>pm2_env\<close>; memory and cpu are added when \<^verbatim>\<open>e.monit\<close> is there, the
  two versions, marked \<^verbatim>\<open>direct\<close>, when they are truthy.
\<close>

definition monit_of :: "descr \<Rightarrow> error + (string \<times> jsval) list" where
  "monit_of e =
     (case pm2_env e of
        None \<Rightarrow> Inl TypeError
      | Some pe \<Rightarrow>
          (let m0 = (case axm_monitor pe of None \<Rightarrow> [] | Some m \<Rightarrow> m);
               m1 = (case monit e of
                       None \<Rightarrow> m0
                     | Some s \<Rightarrow>
                         put ''cpu'' (JObj [(''value'', cpu s)])
                           (put ''memory'' (JObj [(''value'', JNum (MiB (memory s)))]) m0));
               m2 = (if truthy (pm2_version pe)
                     then put ''pm2'' (JObj [(''value'', pm2_version pe), (''direct'', JBool True)]) m1
                     else m1);
               m3 = (if truthy (node_version pe)
                     then put ''node'' (JObj [(''value'', node_version pe), (''direct'', JBool True)]) m2
                     else m2)
           in Inr m3))"

text \<open>
  The rule of a metric (lines 279 to 281): what \<^verbatim>\<open>config.metric[key]\<close> finds, or the
  default rule when that is falsy. \<open>entry\<close> is \<^verbatim>\<open>monit[key]\<close>.
\<close>

definition resolve :: "host \<Rightarrow> health \<Rightarrow> string \<Rightarrow> jsval \<Rightarrow> error + found" where
  "resolve h st key entry =
     (case get_member h (config st ''metric'') key of
        Inl ex \<Rightarrow> Inl ex
      | Inr probe \<Rightarrow>
          if \<not> found_truthy probe
          then (case getprop entry ''direct'' of
                  Inl ex \<Rightarrow> Inl ex
                | Inr d \<Rightarrow>
                    Inr (Val (JObj [(''noNotify'', JBool True),
                                    (''direct'', JBool (strict_eq d (JBool True))),
                                    (''noHistory'', JBool (strict_eq d (JBool True)))])))
          else Inr probe)"

text \<open>Lines 290 to 296: the value the rule is tested on, or \<open>None\<close> where it is skipped.\<close>

definition coerce :: "host \<Rightarrow> found \<Rightarrow> jsval \<Rightarrow> jsval option" where
  "coerce h probe v0 =
     (if \<not> truthy (rule_get probe ''direct'')
      then (let n = parseFloat h v0 in if n = NaN then None else Some (JNum n))
      else Some v0)"

text \<open>
  Lines 298 and 299: \<^verbatim>\<open>bad\<close>, which stays undefined unless \<^verbatim>\<open>op\<close> is truthy and
  \<^verbatim>\<open>in OP\<close> and the target is not null; then it is what the call gives, and the call
  may throw.
\<close>

definition threshold :: "host \<Rightarrow> found \<Rightarrow> jsval \<Rightarrow> error + verdict" where
  "threshold h probe v =
     (if truthy (rule_get probe ''op'') \<and> in_OP h (js_string h (rule_get probe ''op'')) \<and>
         \<not> nullish (rule_get probe ''target'')
      then call_OP h (js_string h (rule_get probe ''op'')) v (rule_get probe ''target'')
      else Inr Bad_undefined)"

text \<open>
  The body of the loop over the keys of \<^verbatim>\<open>monit\<close>, on the rows collected so far and the
  state. An error is a \<^verbatim>\<open>TypeError\<close> that nothing catches.
\<close>

definition probe_metric ::
  "host \<Rightarrow> descr \<Rightarrow> (string \<times> jsval) list \<Rightarrow> string \<Rightarrow> row list \<times> health
     \<Rightarrow> error + (row list \<times> health)" where
  "probe_metric h e m key acc =
     (case acc of (alerts, st) \<Rightarrow>
        (case resolve h st key (prop_of (JObj m) key) of
           Inl ex \<Rightarrow> Inl ex
         | Inr probe \<Rightarrow>
             if strict_eq (rule_get probe ''exclude'') (JBool True) then Inr (alerts, st)
             else
               (case getprop (prop_of (JObj m) key) ''value'' of
                  Inl ex \<Rightarrow> Inl ex
                | Inr v0 \<Rightarrow>
                    (case coerce h probe v0 of
                       None \<Rightarrow> Inr (alerts, info (Console_not_a_number key) st)
                     | Some v \<Rightarrow>
                         (case threshold h probe v of
                            Inl ex \<Rightarrow> Inl ex
                          | Inr bad \<Rightarrow>
                              (let prev = snapshot_last h (snapshot st) (pm_id e) key;
                                   alerts' =
                                     (if \<not> strict_eq (rule_get probe ''noNotify'') (JBool True) \<and>
                                         bad = Bad_bool True \<and>
                                         (\<not> strict_eq (rule_get probe ''ifChanged'') (JBool True) \<or>
                                          \<not> strict_eq prev v)
                                      then alerts @ [\<lparr>row_app = name e, row_pm_id = pm_id e,
                                                      row_key = key, row_v = v, row_prev = prev,
                                                      row_target = rule_get probe ''target''\<rparr>]
                                      else alerts);
                                   d = JObj ((''v'', v) #
                                             (if verdict_truthy bad then [(''bad'', JBool True)]
                                              else []))
                               in Inr (alerts',
                                       st\<lparr>snapshot := snapshot st @
                                            [Push (pm_id e) (name e) key
                                               (\<not> truthy (rule_get probe ''noHistory'')) d]\<rparr>)))))))"

fun probe_keys ::
  "host \<Rightarrow> descr \<Rightarrow> (string \<times> jsval) list \<Rightarrow> string list \<Rightarrow> row list \<times> health
     \<Rightarrow> error + (row list \<times> health)" where
  "probe_keys h e m [] acc = Inr acc"
| "probe_keys h e m (key # keys) acc =
     (case probe_metric h e m key acc of
        Inl ex \<Rightarrow> Inl ex
      | Inr acc' \<Rightarrow> probe_keys h e m keys acc')"

definition probe_process ::
  "host \<Rightarrow> descr \<Rightarrow> row list \<times> health \<Rightarrow> error + (row list \<times> health)" where
  "probe_process h e acc =
     (if isAppExcluded (snd acc) (name e) then Inr acc
      else (case monit_of e of
              Inl ex \<Rightarrow> Inl ex
            | Inr m \<Rightarrow> probe_keys h e m (map fst m) acc))"

fun probe_list ::
  "host \<Rightarrow> descr list \<Rightarrow> row list \<times> health \<Rightarrow> error + (row list \<times> health)" where
  "probe_list h [] acc = Inr acc"
| "probe_list h (e # es) acc =
     (case probe_process h e acc of
        Inl ex \<Rightarrow> Inl ex
      | Inr acc' \<Rightarrow> probe_list h es acc')"

text \<open>
  \<^verbatim>\<open>testProbes\<close>, once the supervisor has answered \<^verbatim>\<open>PM2.list\<close> with an error or a list.
  \<^verbatim>\<open>stopIfEx\<close> ends the process on an error; so does an error thrown in the loop. The
  timer that starts the next pass is not modelled.
\<close>

datatype fatal = Exit error | Uncaught error

definition testProbes ::
  "host \<Rightarrow> int \<Rightarrow> error option \<Rightarrow> error + descr list \<Rightarrow> health \<Rightarrow> fatal + health" where
  "testProbes h now outcome listed st =
     (case listed of
        Inl ex \<Rightarrow> Inl (Exit ex)
      | Inr es \<Rightarrow>
          (case probe_list h es ([], st) of
             Inl ex \<Rightarrow> Inl (Uncaught ex)
           | Inr (alerts, st1) \<Rightarrow>
               (let st2 = st1\<lparr>snapshot := snapshot st1 @ [Send]\<rparr> in
                Inr (if alerts \<noteq> []
                     then mail now outcome \<lparr>content = Alerts alerts, attachments = []\<rparr> st2
                     else st2))))"

section \<open>A sample environment\<close>

text \<open>
  A host and a state to run the definitions on. The host agrees with the built-ins on
  the values the examples below give it: \<open>parseFloat\<close> on numbers (returned as they
  are) and on strings with no numeric prefix, booleans, \<^verbatim>\<open>null\<close> and \<^verbatim>\<open>undefined\<close>
  (NaN); \<open>StringToNumber\<close> on strings of decimal digits; \<open>RegExp_new\<close> on the
  patterns \<^verbatim>\<open>secret\<close> (compiles) and \<^verbatim>\<open>(\<close> (a syntax error: the group is not closed).
  The store of \<open>host0\<close> has recorded nothing for any metric; no example reads a
  property of an array, a string, a number or a boolean with a computed key.
\<close>

fun digits_value :: "string \<Rightarrow> nat \<Rightarrow> nat option" where
  "digits_value [] acc = Some acc"
| "digits_value (c # cs) acc =
     (let d = (of_char c :: nat) in
      if 48 \<le> d \<and> d \<le> 57 then digits_value cs (10 * acc + (d - 48)) else None)"

definition host0 :: host where
  "host0 =
     \<lparr>parseFloat = (\<lambda>v. case v of JNum n \<Rightarrow> n | _ \<Rightarrow> NaN),
      ToString = (\<lambda>v. case v of JBool b \<Rightarrow> (if b then ''true'' else ''false'')
                              | JNull \<Rightarrow> ''null''
                              | JStr s \<Rightarrow> s
                              | JObj kvs \<Rightarrow> ''[object Object]''
                              | _ \<Rightarrow> ''undefined''),
      StringToNumber = (\<lambda>s. case digits_value s 0 of None \<Rightarrow> NaN | Some n \<Rightarrow> Fin (of_nat n)),
      JSON_stringify = (\<lambda>v. v),
      RegExp_new = (\<lambda>e. if e = JStr ''('' then Some SyntaxError else None),
      RegExp_test = (\<lambda>e s. False),
      snapshot_last = (\<lambda>calls pid key. JUndefined),
      GetV = (\<lambda>obj k. Val JUndefined)\<rparr>"

definition health0 :: health where
  "health0 =
     \<lparr>config = (\<lambda>k. if k = ''metric'' then JObj []
                     else if k = ''webConfig'' then JObj [(''url'', JStr ''http://config'')]
                     else JUndefined),
      messageExcludeExps = [],
      holdTill = None,
      on_exception = False,
      on_msg = False,
      sent = [],
      snapshot = [],
      logged = []\<rparr>"

definition packet0 :: packet where
  "packet0 =
     \<lparr>process = \<lparr>proc_name = ''app'', proc_pm_id = JNum (Fin 3),
                  pm_err_log_path = Some ''/var/log/app-error.log'', pm_out_log_path = None\<rparr>,
      manually = JBool False,
      event = ''exit'',
      data = JObj [(''secret'', JNum (Fin 123))]\<rparr>"

text \<open>
  The configuration of the examples: a rule on \<^verbatim>\<open>cpu\<close> that alerts above 90, a rule on
  the custom metric \<^verbatim>\<open>queue\<close>, and a \<^verbatim>\<open>direct\<close> rule on the supervisor's version that
  also sets an operator and a target. The process \<open>proc0\<close> reports 100 MiB of memory,
  95 percent of cpu and a \<^verbatim>\<open>queue\<close> metric that is not a number; \<open>monit0\<close> is the
  object \<^verbatim>\<open>testProbes\<close> builds for it.
\<close>

definition metric1 :: jsval where
  "metric1 =
     JObj [(''cpu'', JObj [(''op'', JStr ''>''), (''target'', JNum (Fin 90)),
                           (''noNotify'', JBool False)]),
           (''queue'', JObj [(''op'', JStr ''>''), (''target'', JNum (Fin 5))]),
           (''pm2'', JObj [(''direct'', JBool True), (''op'', JStr ''=''),
                           (''target'', JStr ''5.3.0'')])]"

definition health1 :: health where
  "health1 = health0\<lparr>config := (config health0)(''metric'' := metric1)\<rparr>"

definition health2 :: health where
  "health2 = health0\<lparr>config := (config health0)(''appsExcluded'' := JArr [JStr ''app''])\<rparr>"

definition health3 :: health where
  "health3 = health0\<lparr>config := (config health0)(''events'' := JArr [JStr ''exit''])\<rparr>"

definition health4 :: health where
  "health4 = health0\<lparr>config := (config health0)(''events'' := JArr [])\<rparr>"

definition proc0 :: descr where
  "proc0 =
     \<lparr>name = ''app'', pm_id = JNum (Fin 3),
      pm2_env = Some \<lparr>axm_monitor = Some [(''queue'', JObj [(''value'', JStr ''n/a'')])],
                      pm2_version = JStr ''5.3.0'', node_version = JUndefined\<rparr>,
      monit = Some \<lparr>memory = Fin 104857600, cpu = JNum (Fin 95)\<rparr>\<rparr>"

definition monit0 :: "(string \<times> jsval) list" where
  "monit0 =
     [(''queue'', JObj [(''value'', JStr ''n/a'')]),
      (''memory'', JObj [(''value'', JNum (Fin 100))]),
      (''cpu'', JObj [(''value'', JNum (Fin 95))]),
      (''pm2'', JObj [(''value'', JStr ''5.3.0''), (''direct'', JBool True)])]"

text \<open>
  A rule whose \<^verbatim>\<open>op\<close> names a member \<^verbatim>\<open>OP\<close> inherits, on a metric whose value is the
  string \<^verbatim>\<open><\<close>; and, under a configuration with no rule at all, a process whose custom
  metrics are marked \<^verbatim>\<open>direct\<close>, one named \<^verbatim>\<open>release\<close> and one named \<^verbatim>\<open>constructor\<close>.
\<close>

definition health5 :: health where
  "health5 =
     health0\<lparr>config := (config health0)
       (''metric'' := JObj [(''mode'', JObj [(''direct'', JBool True),
                                            (''op'', JStr ''hasOwnProperty''),
                                            (''target'', JNum (Fin 1))])])\<rparr>"

definition proc5 :: descr where
  "proc5 =
     \<lparr>name = ''app'', pm_id = JNum (Fin 3),
      pm2_env = Some \<lparr>axm_monitor = Some [(''mode'', JObj [(''value'', JStr ''<'')])],
                      pm2_version = JUndefined, node_version = JUndefined\<rparr>,
      monit = None\<rparr>"

definition proc6 :: "string \<Rightarrow> descr" where
  "proc6 key =
     \<lparr>name = ''app'', pm_id = JNum (Fin 3),
      pm2_env = Some \<lparr>axm_monitor =
                        Some [(key, JObj [(''value'', JStr ''lts''), (''direct'', JBool True)])],
                      pm2_version = JUndefined, node_version = JUndefined\<rparr>,
      monit = None\<rparr>"

text \<open>
  Two remote payloads: one whose exclusion pattern does not compile, one that sets
  \<^verbatim>\<open>events\<close>, a falsy \<^verbatim>\<open>addLogs\<close> and a key outside the whitelist.
\<close>

definition payload_bad :: jsval where
  "payload_bad =
     JObj [(''events'', JArr [JStr ''exit'']), (''messageExcludeExps'', JArr [JStr ''(''])]"

definition payload_ok :: jsval where
  "payload_ok =
     JObj [(''events'', JArr [JStr ''exit'']), (''addLogs'', JBool False),
           (''mailTo'', JStr ''ops@example.org'')]"

section \<open>Facts about the value layer\<close>

lemma strict_eq_JStr [simp]: "strict_eq y (JStr s) = (y = JStr s)"
  by (cases y) auto

lemma strict_eq_True [simp]: "strict_eq y (JBool True) = (y = JBool True)"
  by (cases y) auto

lemma indexOf_from_miss:
  "0 \<le> i \<Longrightarrow> (indexOf_from i xs x = -1) = (\<forall>y\<in>set xs. \<not> strict_eq y x)"
  by (induction xs arbitrary: i) auto

lemma indexOf_miss: "(indexOf xs x = -1) = (\<forall>y\<in>set xs. \<not> strict_eq y x)"
  by (simp add: indexOf_def indexOf_from_miss)

lemmas sample_defs =
  health0_def health1_def health2_def health3_def health4_def health5_def host0_def proc0_def
  proc5_def proc6_def monit0_def metric1_def packet0_def payload_bad_def payload_ok_def

lemma monit_of_proc0: "monit_of proc0 = Inr monit0"
  by (simp add: monit_of_def proc0_def monit0_def)

section \<open>The operators \<^verbatim>\<open>=\<close> and \<^verbatim>\<open>!=\<close>\<close>

text \<open>
  C10. \<^verbatim>\<open>=\<close> is strict equality and \<^verbatim>\<open>!=\<close> is loose inequality, so neither is the
  negation of the other: on the number 5 and the string \<^verbatim>\<open>"5"\<close> the operator \<^verbatim>\<open>=\<close>
  gives false, and so does \<^verbatim>\<open>!=\<close> as soon as the string \<^verbatim>\<open>"5"\<close> converts to the
  number 5; on the number 1 and the boolean \<^verbatim>\<open>true\<close> both give false whatever the
  conversions of strings are.
\<close>

theorem OP_eq_ne_both_false:
  "map_option (\<lambda>f. f (JNum (Fin 5)) (JStr ''5'')) (OP h ''='') = Some False \<and>
   (StringToNumber h ''5'' = Fin 5 \<longrightarrow>
      map_option (\<lambda>f. f (JNum (Fin 5)) (JStr ''5'')) (OP h ''!='') = Some False) \<and>
   map_option (\<lambda>f. f (JNum (Fin 1)) (JBool True)) (OP h ''='') = Some False \<and>
   map_option (\<lambda>f. f (JNum (Fin 1)) (JBool True)) (OP h ''!='') = Some False"
  by (simp add: OP_def loose_eq_def loose_operand_def ToPrimitive_def ToNumber_def)

theorem OP_eq_ne_both_false_witness:
  "StringToNumber host0 ''5'' = Fin 5 \<and>
   map_option (\<lambda>f. f (JNum (Fin 5)) (JStr ''5'')) (OP host0 ''='') = Some False \<and>
   map_option (\<lambda>f. f (JNum (Fin 5)) (JStr ''5'')) (OP host0 ''!='') = Some False"
proof -
  have five: "StringToNumber host0 ''5'' = Fin 5"
    by (simp add: host0_def)
  with OP_eq_ne_both_false [of host0] show ?thesis by simp
qed

section \<open>The alert gate\<close>

text \<open>
  C5. While the hold is set and the time is strictly before it, \<^verbatim>\<open>mail\<close> leaves the
  state as it is: \<^verbatim>\<open>_mail.send\<close> is not called, nothing is logged, the alert is gone.
  With no hold, or at or after its expiry, \<^verbatim>\<open>_mail.send\<close> is called with the alert,
  whether it then succeeds or fails.
\<close>

theorem mail_hold_gate:
  "(holdTill st = Some t \<and> now < t \<longrightarrow> mail now outcome m st = st) \<and>
   (holdTill st = None \<or> (holdTill st = Some t \<and> t \<le> now) \<longrightarrow>
      sent (mail now outcome m st) = sent st @ [m])"
  by (auto simp: mail_def info_def split: option.splits)

text \<open>A hold of five minutes set at time 0: an alert after two minutes, one after six.\<close>

theorem mail_hold_gate_witness:
  "holdTill (health0\<lparr>holdTill := Some 300000\<rparr>) = Some 300000 \<and> (120000::int) < 300000 \<and>
   mail 120000 None \<lparr>content = Exception packet0, attachments = []\<rparr>
     (health0\<lparr>holdTill := Some 300000\<rparr>) = health0\<lparr>holdTill := Some 300000\<rparr> \<and>
   (300000::int) \<le> 360000 \<and>
   sent (mail 360000 None \<lparr>content = Exception packet0, attachments = []\<rparr>
           (health0\<lparr>holdTill := Some 300000\<rparr>))
     = [\<lparr>content = Exception packet0, attachments = []\<rparr>]"
  using
    mail_hold_gate [of "health0\<lparr>holdTill := Some 300000\<rparr>" 300000 120000 None
      "\<lparr>content = Exception packet0, attachments = []\<rparr>"]
    mail_hold_gate [of "health0\<lparr>holdTill := Some 300000\<rparr>" 300000 360000 None
      "\<lparr>content = Exception packet0, attachments = []\<rparr>"]
  by (simp add: health0_def)

section \<open>Lifecycle events\<close>

text \<open>
  C2, as the claim states it, fails on an empty list: \<^verbatim>\<open>Array.isArray([])\<close> holds and
  \<^verbatim>\<open>indexOf\<close> finds nothing, so with \<^verbatim>\<open>events: []\<close> the handler returns before it
  builds an alert, for an event that is not manual on a process that is not excluded.
\<close>

theorem lifecycle_empty_events_counterexample:
  "\<not> truthy (manually packet0) \<and>
   \<not> isAppExcluded health4 (proc_name (process packet0)) \<and>
   config health4 ''events'' = JArr [] \<and>
   lifecycle_alert health4 packet0 = None \<and>
   on_process_event 0 None packet0 health4 = health4"
  by (simp add: lifecycle_alert_def on_process_event_def isAppExcluded_def indexOf_def sample_defs)

text \<open>
  C2, amended. For an event that is not manual, on a process that is not excluded: when
  \<^verbatim>\<open>events\<close> is not an array (absent included), the handler builds an alert and hands it
  to \<^verbatim>\<open>mail\<close>; when \<^verbatim>\<open>events\<close> is an array, empty or not, it does so iff the name of
  the event is an element of the array.
\<close>

theorem lifecycle_events:
  assumes "\<not> truthy (manually d)" and "\<not> isAppExcluded st (proc_name (process d))"
  shows "(lifecycle_alert st d \<noteq> None) =
           (case config st ''events'' of JArr xs \<Rightarrow> JStr (event d) \<in> set xs | _ \<Rightarrow> True) \<and>
         on_process_event now outcome d st =
           (case lifecycle_alert st d of None \<Rightarrow> st | Some m \<Rightarrow> mail now outcome m st)"
  using assms
  by (auto simp: lifecycle_alert_def on_process_event_def indexOf_miss split: jsval.splits)

theorem lifecycle_events_witness:
  "\<not> truthy (manually packet0) \<and> \<not> isAppExcluded health3 (proc_name (process packet0)) \<and>
   config health3 ''events'' = JArr [JStr ''exit''] \<and>
   lifecycle_alert health3 packet0 \<noteq> None \<and>
   config health0 ''events'' = JUndefined \<and>
   lifecycle_alert health0 packet0 \<noteq> None"
proof -
  have a: "\<not> truthy (manually packet0)" by (simp add: packet0_def)
  have b: "\<not> isAppExcluded health3 (proc_name (process packet0))"
    by (simp add: isAppExcluded_def sample_defs)
  have c: "\<not> isAppExcluded health0 (proc_name (process packet0))"
    by (simp add: isAppExcluded_def sample_defs)
  have e3: "config health3 ''events'' = JArr [JStr ''exit'']" by (simp add: sample_defs)
  have e0: "config health0 ''events'' = JUndefined" by (simp add: sample_defs)
  have ev: "event packet0 = ''exit''" by (simp add: packet0_def)
  from lifecycle_events [OF a b] lifecycle_events [OF a c] a b e3 e0 ev show ?thesis
    by simp
qed

section \<open>Remote configuration: what a fetch changes\<close>

lemma map_keys_config:
  "\<not> nullish payload \<Longrightarrow>
   \<exists>st'. map_keys keys payload st = Inr st' \<and>
     (\<forall>k. config st' k =
        (if k \<in> set keys \<and> truthy (prop_of payload k) then prop_of payload k else config st k)) \<and>
     messageExcludeExps st' = messageExcludeExps st \<and> holdTill st' = holdTill st \<and>
     sent st' = sent st \<and> snapshot st' = snapshot st"
proof (induction keys arbitrary: st)
  case Nil
  then show ?case by simp
next
  case (Cons key keys)
  show ?case
  proof (cases "truthy (prop_of payload key)")
    case True
    with Cons.IH [OF Cons.prems,
        of "info (Info_applying key) (st\<lparr>config := (config st)(key := prop_of payload key)\<rparr>)"]
      Cons.prems
    show ?thesis
      by (auto simp: getprop_def info_def)
  next
    case False
    with Cons.IH [OF Cons.prems, of st] Cons.prems show ?thesis
      by (auto simp: getprop_def)
  qed
qed

lemma configChanged_config:
  "configChanged h st = Inr st' \<Longrightarrow> config st' = config st"
  "configChanged h st = Inl (ex, st') \<Longrightarrow> config st' = config st \<and> messageExcludeExps st' = []"
  by (auto simp: configChanged_def Let_def split: jsval.splits sum.splits)

lemma prop_of_nullish: "nullish payload \<Longrightarrow> prop_of payload k = JUndefined"
  by (cases payload) auto

text \<open>
  C7. Once the payload is parsed, the fetch leaves in every field of the effective
  configuration the value of the payload when the field is one of \<^verbatim>\<open>CONFIG_KEYS\<close> and
  the payload's value for it is truthy, and the value the field had before otherwise:
  absent and falsy keys, and keys outside the whitelist, change nothing.
\<close>

theorem fetchConfig_frame:
  assumes "\<not> nullish (config st ''webConfig'')"
  shows "config (fetchConfig h (Parsed payload) st) k =
           (if k \<in> set CONFIG_KEYS \<and> truthy (prop_of payload k) then prop_of payload k
            else config st k)"
proof (cases "nullish payload")
  case True
  with assms have "config (fetchConfig h (Parsed payload) st) = config st"
    by (simp add: fetchConfig_def getprop_def caught_def info_def CONFIG_KEYS_def)
  with True show ?thesis by (simp add: prop_of_nullish)
next
  case False
  let ?st1 = "info (Info_fetching (prop_of (config st ''webConfig'') ''url'')) st"
  from map_keys_config [OF False, of CONFIG_KEYS ?st1]
  obtain st2 where st2: "map_keys CONFIG_KEYS payload ?st1 = Inr st2"
    and cfg: "\<And>k. config st2 k =
      (if k \<in> set CONFIG_KEYS \<and> truthy (prop_of payload k) then prop_of payload k
       else config ?st1 k)"
    by blast
  have "config (fetchConfig h (Parsed payload) st) = config st2"
    using assms st2
    by (auto simp: fetchConfig_def getprop_def caught_def Let_def info_def split: sum.splits
        dest: configChanged_config)
  with cfg [of k] show ?thesis by (simp add: info_def)
qed

theorem fetchConfig_frame_witness:
  "\<not> nullish (config health0 ''webConfig'') \<and>
   config health0 ''events'' = JUndefined \<and>
   config (fetchConfig host0 (Parsed payload_ok) health0) ''events'' = JArr [JStr ''exit''] \<and>
   config (fetchConfig host0 (Parsed payload_ok) health0) ''addLogs'' = config health0 ''addLogs'' \<and>
   config (fetchConfig host0 (Parsed payload_ok) health0) ''mailTo'' = config health0 ''mailTo'' \<and>
   config (fetchConfig host0 (Parsed payload_ok) health0) ''metric'' = config health0 ''metric''"
proof -
  have w: "\<not> nullish (config health0 ''webConfig'')"
    by (simp add: health0_def)
  have e0: "config health0 ''events'' = JUndefined"
    by (simp add: health0_def)
  from fetchConfig_frame [OF w, of host0 payload_ok "''events''"]
    fetchConfig_frame [OF w, of host0 payload_ok "''addLogs''"]
    fetchConfig_frame [OF w, of host0 payload_ok "''mailTo''"]
    fetchConfig_frame [OF w, of host0 payload_ok "''metric''"]
    w e0
  show ?thesis
    by (simp add: payload_ok_def CONFIG_KEYS_def)
qed

section \<open>Remote configuration: a fetch that fails\<close>

text \<open>
  C3, as the claim states it, fails when the step that fails is the compilation of the
  exclusion patterns: \<^verbatim>\<open>configChanged\<close> runs after the loop over the keys, so the error
  is caught and logged when \<^verbatim>\<open>events\<close> and \<^verbatim>\<open>messageExcludeExps\<close> have been assigned
  already. \<^verbatim>\<open>events\<close> was absent before this fetch and is \<^verbatim>\<open>["exit"]\<close> after it.
\<close>

theorem fetchConfig_regexp_counterexample:
  "compile_all host0 [JStr ''(''] = Inl SyntaxError \<and>
   config health0 ''events'' = JUndefined \<and>
   config (fetchConfig host0 (Parsed payload_bad) health0) ''events'' = JArr [JStr ''exit''] \<and>
   logged (fetchConfig host0 (Parsed payload_bad) health0) =
     [Info_fetching (JStr ''http://config''), Info_applying ''events'',
      Info_applying ''messageExcludeExps'', Error_fetch SyntaxError]"
  by (simp add: fetchConfig_def payload_bad_def health0_def host0_def CONFIG_KEYS_def
      getprop_def info_def caught_def configChanged_def)

text \<open>
  C3, amended. When the request fails, the body does not parse or the payload is
  \<^verbatim>\<open>null\<close>, the error is caught and logged and nothing but the log changes: the
  effective configuration and the compiled patterns are as before. When compiling a
  pattern throws, the error is caught and logged as well, but every truthy whitelisted
  key of the payload has been applied and the list of compiled patterns is left empty.
\<close>

theorem fetchConfig_failure:
  assumes "\<not> nullish (config st ''webConfig'')"
  shows
   "(res = FetchFailed ex \<or> res = ParseFailed ex \<longrightarrow>
       fetchConfig h res st =
         st\<lparr>logged := logged st @
              [Info_fetching (prop_of (config st ''webConfig'') ''url''), Error_fetch ex]\<rparr>) \<and>
    (nullish payload \<longrightarrow>
       fetchConfig h (Parsed payload) st =
         st\<lparr>logged := logged st @
              [Info_fetching (prop_of (config st ''webConfig'') ''url''), Error_fetch TypeError]\<rparr>) \<and>
    (\<not> nullish payload \<and>
     (if truthy (prop_of payload ''messageExcludeExps'') then prop_of payload ''messageExcludeExps''
      else config st ''messageExcludeExps'') = JArr es \<and>
     compile_all h es = Inl ex \<longrightarrow>
       config (fetchConfig h (Parsed payload) st) =
         (\<lambda>k. if k \<in> set CONFIG_KEYS \<and> truthy (prop_of payload k) then prop_of payload k
              else config st k) \<and>
       messageExcludeExps (fetchConfig h (Parsed payload) st) = [] \<and>
       last (logged (fetchConfig h (Parsed payload) st)) = Error_fetch ex)"
proof (intro conjI impI)
  assume "res = FetchFailed ex \<or> res = ParseFailed ex"
  with assms show "fetchConfig h res st =
         st\<lparr>logged := logged st @
              [Info_fetching (prop_of (config st ''webConfig'') ''url''), Error_fetch ex]\<rparr>"
    by (auto simp: fetchConfig_def getprop_def caught_def info_def)
next
  assume "nullish payload"
  with assms show "fetchConfig h (Parsed payload) st =
         st\<lparr>logged := logged st @
              [Info_fetching (prop_of (config st ''webConfig'') ''url''), Error_fetch TypeError]\<rparr>"
    by (auto simp: fetchConfig_def getprop_def caught_def info_def CONFIG_KEYS_def)
next
  assume a: "\<not> nullish payload \<and>
     (if truthy (prop_of payload ''messageExcludeExps'') then prop_of payload ''messageExcludeExps''
      else config st ''messageExcludeExps'') = JArr es \<and>
     compile_all h es = Inl ex"
  let ?st1 = "info (Info_fetching (prop_of (config st ''webConfig'') ''url'')) st"
  from a map_keys_config [of payload CONFIG_KEYS ?st1]
  obtain st2 where st2: "map_keys CONFIG_KEYS payload ?st1 = Inr st2"
    and cfg: "\<And>k. config st2 k =
      (if k \<in> set CONFIG_KEYS \<and> truthy (prop_of payload k) then prop_of payload k
       else config ?st1 k)"
    by blast
  from cfg [of "''messageExcludeExps''"] a have "config st2 ''messageExcludeExps'' = JArr es"
    by (auto simp: CONFIG_KEYS_def info_def split: if_splits)
  with a have cc: "configChanged h st2 = Inl (ex, st2\<lparr>messageExcludeExps := []\<rparr>)"
    by (simp add: configChanged_def)
  have fc: "fetchConfig h (Parsed payload) st = caught ex (st2\<lparr>messageExcludeExps := []\<rparr>)"
    using assms st2 cc by (simp add: fetchConfig_def getprop_def)
  show "config (fetchConfig h (Parsed payload) st) =
         (\<lambda>k. if k \<in> set CONFIG_KEYS \<and> truthy (prop_of payload k) then prop_of payload k
              else config st k)"
    using cfg by (auto simp: fc caught_def info_def)
  show "messageExcludeExps (fetchConfig h (Parsed payload) st) = []"
    by (simp add: fc caught_def info_def)
  show "last (logged (fetchConfig h (Parsed payload) st)) = Error_fetch ex"
    by (simp add: fc caught_def info_def)
qed

theorem fetchConfig_failure_witness:
  "\<not> nullish (config health0 ''webConfig'') \<and>
   fetchConfig host0 (FetchFailed (Failure ''ECONNREFUSED'')) health0 =
     health0\<lparr>logged := [Info_fetching (JStr ''http://config''),
                         Error_fetch (Failure ''ECONNREFUSED'')]\<rparr> \<and>
   fetchConfig host0 (Parsed JNull) health0 =
     health0\<lparr>logged := [Info_fetching (JStr ''http://config''), Error_fetch TypeError]\<rparr> \<and>
   compile_all host0 [JStr ''(''] = Inl SyntaxError \<and>
   config (fetchConfig host0 (Parsed payload_bad) health0) ''events'' = JArr [JStr ''exit''] \<and>
   messageExcludeExps (fetchConfig host0 (Parsed payload_bad) health0) = [] \<and>
   last (logged (fetchConfig host0 (Parsed payload_bad) health0)) = Error_fetch SyntaxError"
proof -
  have w: "\<not> nullish (config health0 ''webConfig'')"
    by (simp add: health0_def)
  have c: "compile_all host0 [JStr ''(''] = Inl SyntaxError"
    by (simp add: host0_def)
  have l: "logged health0 = []" "prop_of (config health0 ''webConfig'') ''url'' = JStr ''http://config''"
    by (simp_all add: health0_def)
  have p: "\<not> nullish payload_bad"
    "(if truthy (prop_of payload_bad ''messageExcludeExps'')
      then prop_of payload_bad ''messageExcludeExps''
      else config health0 ''messageExcludeExps'') = JArr [JStr ''('']"
    "prop_of payload_bad ''events'' = JArr [JStr ''exit'']"
    by (simp_all add: payload_bad_def)
  from fetchConfig_failure [OF w, of "FetchFailed (Failure ''ECONNREFUSED'')"
      "Failure ''ECONNREFUSED''" host0 JNull "[]"]
  have f1: "fetchConfig host0 (FetchFailed (Failure ''ECONNREFUSED'')) health0 =
     health0\<lparr>logged := [Info_fetching (JStr ''http://config''),
                         Error_fetch (Failure ''ECONNREFUSED'')]\<rparr>"
    and f2: "fetchConfig host0 (Parsed JNull) health0 =
     health0\<lparr>logged := [Info_fetching (JStr ''http://config''), Error_fetch TypeError]\<rparr>"
    by (simp_all add: l)
  from fetchConfig_failure [OF w, of "Parsed payload_bad" SyntaxError host0 payload_bad
      "[JStr ''('']"] p c
  have f3: "config (fetchConfig host0 (Parsed payload_bad) health0) ''events'' = JArr [JStr ''exit'']"
    and f4: "messageExcludeExps (fetchConfig host0 (Parsed payload_bad) health0) = []"
    and f5: "last (logged (fetchConfig host0 (Parsed payload_bad) health0)) = Error_fetch SyntaxError"
    by (simp_all add: CONFIG_KEYS_def)
  from w f1 f2 c f3 f4 f5 show ?thesis by blast
qed

section \<open>The probe evaluator: one metric\<close>

lemma probe_metric_run:
  assumes "resolve h st key (prop_of (JObj m) key) = Inr probe"
    and "rule_get probe ''exclude'' \<noteq> JBool True"
    and "getprop (prop_of (JObj m) key) ''value'' = Inr v0"
    and "coerce h probe v0 = Some v"
    and "threshold h probe v = Inr bad"
  shows "probe_metric h e m key (alerts, st) =
           Inr (if rule_get probe ''noNotify'' \<noteq> JBool True \<and> bad = Bad_bool True \<and>
                   (rule_get probe ''ifChanged'' \<noteq> JBool True \<or>
                    \<not> strict_eq (snapshot_last h (snapshot st) (pm_id e) key) v)
                then alerts @ [\<lparr>row_app = name e, row_pm_id = pm_id e, row_key = key, row_v = v,
                                row_prev = snapshot_last h (snapshot st) (pm_id e) key,
                                row_target = rule_get probe ''target''\<rparr>]
                else alerts,
                st\<lparr>snapshot := snapshot st @
                     [Push (pm_id e) (name e) key (\<not> truthy (rule_get probe ''noHistory''))
                        (JObj ((''v'', v) #
                               (if verdict_truthy bad then [(''bad'', JBool True)] else [])))]\<rparr>)"
  using assms by (simp add: probe_metric_def Let_def)

lemma probe_metric_throws:
  assumes "resolve h st key (prop_of (JObj m) key) = Inr probe"
    and "rule_get probe ''exclude'' \<noteq> JBool True"
    and "getprop (prop_of (JObj m) key) ''value'' = Inr v0"
    and "coerce h probe v0 = Some v"
    and "threshold h probe v = Inl ex"
  shows "probe_metric h e m key (alerts, st) = Inl ex"
  using assms by (simp add: probe_metric_def)

lemma probe_metric_nan:
  assumes "resolve h st key (prop_of (JObj m) key) = Inr probe"
    and "rule_get probe ''exclude'' \<noteq> JBool True"
    and "getprop (prop_of (JObj m) key) ''value'' = Inr v0"
    and "coerce h probe v0 = None"
  shows "probe_metric h e m key (alerts, st) =
           Inr (alerts, st\<lparr>logged := logged st @ [Console_not_a_number key]\<rparr>)"
  using assms by (simp add: probe_metric_def info_def)

lemma probe_metric_cases:
  obtains (err) ex where "probe_metric h e m key (alerts, st) = Inl ex"
  | (skip) "probe_metric h e m key (alerts, st) = Inr (alerts, st)"
  | (nan) "probe_metric h e m key (alerts, st) =
             Inr (alerts, st\<lparr>logged := logged st @ [Console_not_a_number key]\<rparr>)"
  | (push) alerts' c where
      "probe_metric h e m key (alerts, st) = Inr (alerts', st\<lparr>snapshot := snapshot st @ [c]\<rparr>)"
proof (cases "resolve h st key (prop_of (JObj m) key)")
  case (Inl ex)
  then show ?thesis using err by (simp add: probe_metric_def)
next
  case (Inr probe)
  note probe = this
  show ?thesis
  proof (cases "rule_get probe ''exclude'' = JBool True")
    case True
    with probe show ?thesis using skip by (simp add: probe_metric_def)
  next
    case False
    note nex = this
    show ?thesis
    proof (cases "getprop (prop_of (JObj m) key) ''value''")
      case (Inl ex)
      with probe nex show ?thesis using err by (simp add: probe_metric_def)
    next
      case (Inr v0)
      note v0 = this
      show ?thesis
      proof (cases "coerce h probe v0")
        case None
        from probe_metric_nan [OF probe nex v0 None] show ?thesis using nan by simp
      next
        case (Some v)
        note v = this
        show ?thesis
        proof (cases "threshold h probe v")
          case (Inl ex)
          from probe_metric_throws [OF probe nex v0 v Inl] show ?thesis using err by simp
        next
          case (Inr bad)
          from probe_metric_run [OF probe nex v0 v Inr] show ?thesis using push by simp
        qed
      qed
    qed
  qed
qed

text \<open>
  C1, as the claim states it, fails: the comparison of line 299 is not guarded by
  \<^verbatim>\<open>direct\<close>. The rule \<^verbatim>\<open>{direct: true, op: "=", target: "5.3.0"}\<close> on the supervisor's
  version, which is \<^verbatim>\<open>"5.3.0"\<close>, gives bad = true, an alert row, and a history entry
  that carries \<^verbatim>\<open>bad\<close>; the pass mails that row after the one for the cpu.
\<close>

theorem direct_probe_counterexample:
  "resolve host0 health1 ''pm2'' (prop_of (JObj monit0) ''pm2'') =
     Inr (Val (JObj [(''direct'', JBool True), (''op'', JStr ''=''), (''target'', JStr ''5.3.0'')])) \<and>
   threshold host0
     (Val (JObj [(''direct'', JBool True), (''op'', JStr ''=''), (''target'', JStr ''5.3.0'')]))
     (JStr ''5.3.0'') = Inr (Bad_bool True) \<and>
   probe_metric host0 proc0 monit0 ''pm2'' ([], health1) =
     Inr ([\<lparr>row_app = ''app'', row_pm_id = JNum (Fin 3), row_key = ''pm2'', row_v = JStr ''5.3.0'',
            row_prev = JUndefined, row_target = JStr ''5.3.0''\<rparr>],
          health1\<lparr>snapshot := [Push (JNum (Fin 3)) ''app'' ''pm2'' True
             (JObj [(''v'', JStr ''5.3.0''), (''bad'', JBool True)])]\<rparr>) \<and>
   map_sum id sent (testProbes host0 0 None (Inr [proc0]) health1) =
     Inr [\<lparr>content = Alerts
             [\<lparr>row_app = ''app'', row_pm_id = JNum (Fin 3), row_key = ''cpu'',
               row_v = JNum (Fin 95), row_prev = JUndefined, row_target = JNum (Fin 90)\<rparr>,
              \<lparr>row_app = ''app'', row_pm_id = JNum (Fin 3), row_key = ''pm2'',
               row_v = JStr ''5.3.0'', row_prev = JUndefined, row_target = JStr ''5.3.0''\<rparr>],
           attachments = []\<rparr>]"
proof -
  have a: "resolve host0 health1 ''pm2'' (prop_of (JObj monit0) ''pm2'') =
     Inr (Val (JObj [(''direct'', JBool True), (''op'', JStr ''=''), (''target'', JStr ''5.3.0'')]))"
    by (simp add: resolve_def get_member_def getprop_def sample_defs)
  have b: "threshold host0
     (Val (JObj [(''direct'', JBool True), (''op'', JStr ''=''), (''target'', JStr ''5.3.0'')]))
     (JStr ''5.3.0'') = Inr (Bad_bool True)"
    by (simp add: threshold_def in_OP_def call_OP_def OP_def js_string_def)
  have c: "probe_metric host0 proc0 monit0 ''pm2'' ([], health1) =
     Inr ([\<lparr>row_app = ''app'', row_pm_id = JNum (Fin 3), row_key = ''pm2'', row_v = JStr ''5.3.0'',
            row_prev = JUndefined, row_target = JStr ''5.3.0''\<rparr>],
          health1\<lparr>snapshot := [Push (JNum (Fin 3)) ''app'' ''pm2'' True
             (JObj [(''v'', JStr ''5.3.0''), (''bad'', JBool True)])]\<rparr>)"
    by (simp add: probe_metric_def resolve_def get_member_def getprop_def threshold_def in_OP_def
        call_OP_def coerce_def OP_def js_string_def sample_defs)
  have d: "map_sum id sent (testProbes host0 0 None (Inr [proc0]) health1) =
     Inr [\<lparr>content = Alerts
             [\<lparr>row_app = ''app'', row_pm_id = JNum (Fin 3), row_key = ''cpu'',
               row_v = JNum (Fin 95), row_prev = JUndefined, row_target = JNum (Fin 90)\<rparr>,
              \<lparr>row_app = ''app'', row_pm_id = JNum (Fin 3), row_key = ''pm2'',
               row_v = JStr ''5.3.0'', row_prev = JUndefined, row_target = JStr ''5.3.0''\<rparr>],
           attachments = []\<rparr>]"
    by (simp add: testProbes_def probe_process_def isAppExcluded_def monit_of_def mail_def info_def
        probe_metric_def resolve_def get_member_def Object_prototype_def getprop_def threshold_def
        in_OP_def call_OP_def coerce_def OP_def js_string_def js_lt_def ToPrimitive_def
        ToNumber_def sample_defs)
  from a b c d show ?thesis by blast
qed

text \<open>
  C1, amended. For a rule whose \<^verbatim>\<open>direct\<close> is truthy the value is never parsed as a
  number: the rule is tested on the value as the process reports it. That value is
  compared with \<^verbatim>\<open>target\<close> whenever \<^verbatim>\<open>op\<close> is one of the six operators and \<^verbatim>\<open>target\<close>
  is not null, and bad is then the result of the operator; when \<^verbatim>\<open>op\<close> is falsy or not
  \<^verbatim>\<open>in OP\<close>, or \<^verbatim>\<open>target\<close> is null, bad stays undefined. Whatever line 299 leaves in
  bad, the row is raised under the condition of every other rule: \<^verbatim>\<open>noNotify\<close> is not
  true, bad is true, and \<^verbatim>\<open>ifChanged\<close> is not true or the value differs from the one
  last recorded.
\<close>

theorem direct_probe:
  assumes "resolve h st key (prop_of (JObj m) key) = Inr probe"
    and "truthy (rule_get probe ''direct'')"
    and "rule_get probe ''exclude'' \<noteq> JBool True"
    and "getprop (prop_of (JObj m) key) ''value'' = Inr v0"
  shows
   "coerce h probe v0 = Some v0 \<and>
    (\<forall>f. truthy (rule_get probe ''op'') \<and> \<not> nullish (rule_get probe ''target'') \<and>
         OP h (js_string h (rule_get probe ''op'')) = Some f \<longrightarrow>
         threshold h probe v0 = Inr (Bad_bool (f v0 (rule_get probe ''target'')))) \<and>
    (\<not> truthy (rule_get probe ''op'') \<or> nullish (rule_get probe ''target'') \<or>
       \<not> in_OP h (js_string h (rule_get probe ''op'')) \<longrightarrow>
       threshold h probe v0 = Inr Bad_undefined) \<and>
    (\<forall>bad. threshold h probe v0 = Inr bad \<longrightarrow>
       (\<exists>st'. probe_metric h e m key (alerts, st) =
          Inr (if rule_get probe ''noNotify'' \<noteq> JBool True \<and> bad = Bad_bool True \<and>
                  (rule_get probe ''ifChanged'' \<noteq> JBool True \<or>
                   \<not> strict_eq (snapshot_last h (snapshot st) (pm_id e) key) v0)
               then alerts @ [\<lparr>row_app = name e, row_pm_id = pm_id e, row_key = key,
                               row_v = v0,
                               row_prev = snapshot_last h (snapshot st) (pm_id e) key,
                               row_target = rule_get probe ''target''\<rparr>]
               else alerts, st')))"
proof -
  from assms(2) have c: "coerce h probe v0 = Some v0"
    by (simp add: coerce_def)
  have t1: "\<forall>f. truthy (rule_get probe ''op'') \<and> \<not> nullish (rule_get probe ''target'') \<and>
         OP h (js_string h (rule_get probe ''op'')) = Some f \<longrightarrow>
         threshold h probe v0 = Inr (Bad_bool (f v0 (rule_get probe ''target'')))"
    by (simp add: threshold_def in_OP_def call_OP_def)
  have t2: "\<not> truthy (rule_get probe ''op'') \<or> nullish (rule_get probe ''target'') \<or>
       \<not> in_OP h (js_string h (rule_get probe ''op'')) \<longrightarrow>
       threshold h probe v0 = Inr Bad_undefined"
    by (auto simp: threshold_def)
  have t3: "\<exists>st'. probe_metric h e m key (alerts, st) =
          Inr (if rule_get probe ''noNotify'' \<noteq> JBool True \<and> bad = Bad_bool True \<and>
                  (rule_get probe ''ifChanged'' \<noteq> JBool True \<or>
                   \<not> strict_eq (snapshot_last h (snapshot st) (pm_id e) key) v0)
               then alerts @ [\<lparr>row_app = name e, row_pm_id = pm_id e, row_key = key,
                               row_v = v0,
                               row_prev = snapshot_last h (snapshot st) (pm_id e) key,
                               row_target = rule_get probe ''target''\<rparr>]
               else alerts, st')"
    if "threshold h probe v0 = Inr bad" for bad
    using probe_metric_run [OF assms(1) assms(3) assms(4) c that, of e alerts] by simp
  from c t1 t2 t3 show ?thesis by blast
qed

theorem direct_probe_witness:
  "resolve host0 health1 ''pm2'' (prop_of (JObj monit0) ''pm2'') =
     Inr (Val (JObj [(''direct'', JBool True), (''op'', JStr ''=''), (''target'', JStr ''5.3.0'')])) \<and>
   getprop (prop_of (JObj monit0) ''pm2'') ''value'' = Inr (JStr ''5.3.0'') \<and>
   threshold host0
     (Val (JObj [(''direct'', JBool True), (''op'', JStr ''=''), (''target'', JStr ''5.3.0'')]))
     (JStr ''5.3.0'') = Inr (Bad_bool True) \<and>
   (\<exists>st'. probe_metric host0 proc0 monit0 ''pm2'' ([], health1) =
      Inr ([\<lparr>row_app = ''app'', row_pm_id = JNum (Fin 3), row_key = ''pm2'', row_v = JStr ''5.3.0'',
             row_prev = JUndefined, row_target = JStr ''5.3.0''\<rparr>], st'))"
proof -
  let ?probe = "Val (JObj [(''direct'', JBool True), (''op'', JStr ''=''), (''target'', JStr ''5.3.0'')])"
  have h1: "resolve host0 health1 ''pm2'' (prop_of (JObj monit0) ''pm2'') = Inr ?probe"
    by (simp add: resolve_def get_member_def getprop_def sample_defs)
  have h2: "truthy (rule_get ?probe ''direct'')" by simp
  have h3: "rule_get ?probe ''exclude'' \<noteq> JBool True" by simp
  have h4: "getprop (prop_of (JObj monit0) ''pm2'') ''value'' = Inr (JStr ''5.3.0'')"
    by (simp add: getprop_def sample_defs)
  have op: "OP host0 (js_string host0 (rule_get ?probe ''op'')) = Some (\<lambda>a b. strict_eq a b)"
    by (simp add: OP_def js_string_def)
  note dp = direct_probe [OF h1 h2 h3 h4, of proc0 "[]"]
  from dp op have t: "threshold host0 ?probe (JStr ''5.3.0'') = Inr (Bad_bool True)"
    by simp
  from dp t have "\<exists>st'. probe_metric host0 proc0 monit0 ''pm2'' ([], health1) =
      Inr ([\<lparr>row_app = ''app'', row_pm_id = JNum (Fin 3), row_key = ''pm2'', row_v = JStr ''5.3.0'',
             row_prev = JUndefined, row_target = JStr ''5.3.0''\<rparr>], st')"
    by (simp add: host0_def proc0_def)
  with h1 h4 t show ?thesis by blast
qed

text \<open>
  C4. The claim says that an operator that is not recognized leaves bad undefined and
  raises no row. The code breaks it where \<^verbatim>\<open>op\<close> names a member \<^verbatim>\<open>OP\<close> inherits:
  \<^verbatim>\<open>probe.op in OP\<close> follows the prototype chain, so line 299 calls that member. With the rule
  \<^verbatim>\<open>{direct: true, op: "hasOwnProperty", target: 1}\<close> and the value \<^verbatim>\<open><\<close>, the operator
  is none of the six, yet bad is true and the pass mails a row and records \<^verbatim>\<open>bad\<close>.
  With \<^verbatim>\<open>op: "toString"\<close> bad is a string, which the history records as bad, and with
  \<^verbatim>\<open>op: "__proto__"\<close> the call throws and ends the pass.
\<close>

theorem inherited_op_raises_row:
  "OP host0 ''hasOwnProperty'' = None \<and>
   threshold host0
     (Val (JObj [(''direct'', JBool True), (''op'', JStr ''hasOwnProperty''),
                 (''target'', JNum (Fin 1))]))
     (JStr ''<'') = Inr (Bad_bool True) \<and>
   testProbes host0 0 None (Inr [proc5]) health5 =
     Inr (health5
       \<lparr>sent := [\<lparr>content = Alerts
                    [\<lparr>row_app = ''app'', row_pm_id = JNum (Fin 3), row_key = ''mode'',
                      row_v = JStr ''<'', row_prev = JUndefined, row_target = JNum (Fin 1)\<rparr>],
                  attachments = []\<rparr>],
        snapshot := [Push (JNum (Fin 3)) ''app'' ''mode'' True
                       (JObj [(''v'', JStr ''<''), (''bad'', JBool True)]), Send],
        logged := [Info_mail_send (Alerts
                    [\<lparr>row_app = ''app'', row_pm_id = JNum (Fin 3), row_key = ''mode'',
                      row_v = JStr ''<'', row_prev = JUndefined,
                      row_target = JNum (Fin 1)\<rparr>])]\<rparr>) \<and>
   threshold host0 (Val (JObj [(''op'', JStr ''toString''), (''target'', JNum (Fin 1))]))
     (JNum (Fin 95)) = Inr Bad_other \<and>
   threshold host0 (Val (JObj [(''op'', JStr ''__proto__''), (''target'', JNum (Fin 1))]))
     (JNum (Fin 95)) = Inl TypeError"
proof -
  have a: "OP host0 ''hasOwnProperty'' = None"
    by (simp add: OP_def)
  have b: "threshold host0
     (Val (JObj [(''direct'', JBool True), (''op'', JStr ''hasOwnProperty''),
                 (''target'', JNum (Fin 1))]))
     (JStr ''<'') = Inr (Bad_bool True)"
    by (simp add: threshold_def in_OP_def call_OP_def inherited_call_def OP_def js_string_def
        Object_prototype_def)
  have c: "testProbes host0 0 None (Inr [proc5]) health5 =
     Inr (health5
       \<lparr>sent := [\<lparr>content = Alerts
                    [\<lparr>row_app = ''app'', row_pm_id = JNum (Fin 3), row_key = ''mode'',
                      row_v = JStr ''<'', row_prev = JUndefined, row_target = JNum (Fin 1)\<rparr>],
                  attachments = []\<rparr>],
        snapshot := [Push (JNum (Fin 3)) ''app'' ''mode'' True
                       (JObj [(''v'', JStr ''<''), (''bad'', JBool True)]), Send],
        logged := [Info_mail_send (Alerts
                    [\<lparr>row_app = ''app'', row_pm_id = JNum (Fin 3), row_key = ''mode'',
                      row_v = JStr ''<'', row_prev = JUndefined,
                      row_target = JNum (Fin 1)\<rparr>])]\<rparr>)"
    by (simp add: testProbes_def probe_process_def isAppExcluded_def monit_of_def mail_def info_def
        probe_metric_def resolve_def get_member_def getprop_def threshold_def in_OP_def
        call_OP_def inherited_call_def coerce_def OP_def js_string_def Object_prototype_def
        sample_defs)
  have d: "threshold host0 (Val (JObj [(''op'', JStr ''toString''), (''target'', JNum (Fin 1))]))
     (JNum (Fin 95)) = Inr Bad_other"
    by (simp add: threshold_def in_OP_def call_OP_def inherited_call_def OP_def js_string_def
        Object_prototype_def)
  have e: "threshold host0 (Val (JObj [(''op'', JStr ''__proto__''), (''target'', JNum (Fin 1))]))
     (JNum (Fin 95)) = Inl TypeError"
    by (simp add: threshold_def in_OP_def call_OP_def inherited_call_def OP_def js_string_def
        Object_prototype_def)
  from a b c d e show ?thesis by blast
qed



section \<open>The default rule\<close>

text \<open>
  C9. The claim says that a metric key with no rule in the \<^verbatim>\<open>metric\<close> map is evaluated
  with the default rule. The code breaks it for a key that names a member every
  object inherits: with no rule configured at all, the read of line 279 finds \<^verbatim>\<open>Object.prototype.constructor\<close>, which
  is truthy, so line 281 never builds the default rule. For a metric marked
  \<^verbatim>\<open>direct\<close> with the value \<^verbatim>\<open>lts\<close>: under the name \<^verbatim>\<open>release\<close> the rule is the default
  one with \<open>d\<close> true, and the value goes to the store unparsed with no history kept;
  under the name \<^verbatim>\<open>constructor\<close> the rule is the inherited function, the value is
  parsed, found not to be a number, logged and skipped.
\<close>

theorem inherited_key_no_default_rule:
  "prop_of (config health0 ''metric'') ''release'' = JUndefined \<and>
   prop_of (config health0 ''metric'') ''constructor'' = JUndefined \<and>
   resolve host0 health0 ''release'' (JObj [(''value'', JStr ''lts''), (''direct'', JBool True)]) =
     Inr (Val (JObj [(''noNotify'', JBool True), (''direct'', JBool True),
                     (''noHistory'', JBool True)])) \<and>
   resolve host0 health0 ''constructor''
     (JObj [(''value'', JStr ''lts''), (''direct'', JBool True)]) = Inr (Builtin ''constructor'') \<and>
   testProbes host0 0 None (Inr [proc6 ''release'']) health0 =
     Inr (health0\<lparr>snapshot := [Push (JNum (Fin 3)) ''app'' ''release'' False
                                  (JObj [(''v'', JStr ''lts'')]), Send]\<rparr>) \<and>
   testProbes host0 0 None (Inr [proc6 ''constructor'']) health0 =
     Inr (health0\<lparr>snapshot := [Send], logged := [Console_not_a_number ''constructor'']\<rparr>)"
proof -
  have a: "prop_of (config health0 ''metric'') ''release'' = JUndefined"
    "prop_of (config health0 ''metric'') ''constructor'' = JUndefined"
    by (simp_all add: health0_def)
  have b: "resolve host0 health0 ''release''
      (JObj [(''value'', JStr ''lts''), (''direct'', JBool True)]) =
     Inr (Val (JObj [(''noNotify'', JBool True), (''direct'', JBool True),
                     (''noHistory'', JBool True)]))"
    by (simp add: resolve_def get_member_def getprop_def Object_prototype_def health0_def)
  have c: "resolve host0 health0 ''constructor''
     (JObj [(''value'', JStr ''lts''), (''direct'', JBool True)]) = Inr (Builtin ''constructor'')"
    by (simp add: resolve_def get_member_def getprop_def Object_prototype_def health0_def)
  have d: "testProbes host0 0 None (Inr [proc6 ''release'']) health0 =
     Inr (health0\<lparr>snapshot := [Push (JNum (Fin 3)) ''app'' ''release'' False
                                  (JObj [(''v'', JStr ''lts'')]), Send]\<rparr>)"
    by (simp add: testProbes_def probe_process_def isAppExcluded_def monit_of_def mail_def info_def
        probe_metric_def resolve_def get_member_def getprop_def threshold_def in_OP_def
        call_OP_def inherited_call_def coerce_def OP_def js_string_def Object_prototype_def
        sample_defs)
  have e: "testProbes host0 0 None (Inr [proc6 ''constructor'']) health0 =
     Inr (health0\<lparr>snapshot := [Send], logged := [Console_not_a_number ''constructor'']\<rparr>)"
    by (simp add: testProbes_def probe_process_def isAppExcluded_def monit_of_def mail_def info_def
        probe_metric_def resolve_def get_member_def getprop_def threshold_def in_OP_def
        call_OP_def inherited_call_def coerce_def OP_def js_string_def Object_prototype_def
        sample_defs)
  from a b c d e show ?thesis by blast
qed

section \<open>Excluded processes\<close>

lemma isAppExcluded_config:
  "config st' = config st \<Longrightarrow> isAppExcluded st' app = isAppExcluded st app"
  by (simp add: isAppExcluded_def)

lemma isAppExcluded_iff:
  "isAppExcluded st app =
     (app = ''pm2-health'' \<or> (\<exists>xs. config st ''appsExcluded'' = JArr xs \<and> JStr app \<in> set xs))"
  by (cases "config st ''appsExcluded''") (auto simp: isAppExcluded_def indexOf_miss)

lemma probe_metric_config:
  assumes "probe_metric h e m key acc = Inr acc'"
  shows "config (snd acc') = config (snd acc)"
proof -
  obtain alerts st where acc: "acc = (alerts, st)" by (cases acc)
  show ?thesis
    using assms unfolding acc
    by (cases rule: probe_metric_cases [of h e m key alerts st]) auto
qed

lemma probe_keys_config:
  "probe_keys h e m keys acc = Inr acc' \<Longrightarrow> config (snd acc') = config (snd acc)"
proof (induction keys arbitrary: acc)
  case Nil
  then show ?case by simp
next
  case (Cons key keys)
  then show ?case
    by (auto split: sum.splits dest!: probe_metric_config)
qed

lemma probe_process_config:
  "probe_process h e acc = Inr acc' \<Longrightarrow> config (snd acc') = config (snd acc)"
  by (auto simp: probe_process_def split: if_splits sum.splits dest: probe_keys_config)

lemma probe_list_skips:
  "isAppExcluded (snd acc) app \<Longrightarrow>
   probe_list h es acc = probe_list h (filter (\<lambda>e. name e \<noteq> app) es) acc"
proof (induction es arbitrary: acc)
  case Nil
  then show ?case by simp
next
  case (Cons e es)
  show ?case
  proof (cases "name e = app")
    case True
    with Cons.prems have "probe_process h e acc = Inr acc"
      by (simp add: probe_process_def)
    with True Cons show ?thesis by simp
  next
    case False
    show ?thesis
    proof (cases "probe_process h e acc")
      case (Inl ex)
      with False show ?thesis by simp
    next
      case (Inr acc')
      then have "isAppExcluded (snd acc') app"
        using Cons.prems isAppExcluded_config [OF probe_process_config [OF Inr]] by simp
      with Cons.IH [of acc'] Inr False show ?thesis by simp
    qed
  qed
qed

text \<open>
  C8. For a process whose name is \<^verbatim>\<open>pm2-health\<close> or an element of \<^verbatim>\<open>appsExcluded\<close>:
  each of the three handlers returns with the state as it was (nothing sent, nothing
  logged); the probe evaluator leaves the rows and the state as they were when it meets
  the process; and a whole pass over a list is the pass over the list without the
  processes of that name.
\<close>

theorem excluded_app_silent:
  assumes "app = ''pm2-health'' \<or>
           (\<exists>xs. config st ''appsExcluded'' = JArr xs \<and> JStr app \<in> set xs)"
  shows
   "(proc_name (process d) = app \<longrightarrow>
       bus h now outcome (Process_event d) st = st \<and>
       bus h now outcome (Process_exception d) st = st \<and>
       bus h now outcome (Process_msg d) st = st) \<and>
    (name e = app \<longrightarrow> probe_process h e (alerts, st) = Inr (alerts, st)) \<and>
    probe_list h es (alerts, st) = probe_list h (filter (\<lambda>e. name e \<noteq> app) es) (alerts, st) \<and>
    testProbes h now outcome (Inr es) st =
      testProbes h now outcome (Inr (filter (\<lambda>e. name e \<noteq> app) es)) st"
proof -
  from assms have ex: "isAppExcluded st app"
    by (simp add: isAppExcluded_iff)
  have pl: "probe_list h es (alerts, st) =
      probe_list h (filter (\<lambda>e. name e \<noteq> app) es) (alerts, st)" for alerts
    by (rule probe_list_skips) (simp add: ex)
  from ex show ?thesis
    by (simp add: pl [of alerts] pl [of "[]"] testProbes_def on_process_event_def
        lifecycle_alert_def on_process_exception_def on_process_msg_def probe_process_def)
qed

theorem excluded_app_silent_witness:
  "config health2 ''appsExcluded'' = JArr [JStr ''app''] \<and>
   proc_name (process packet0) = ''app'' \<and> name proc0 = ''app'' \<and>
   bus host0 0 None (Process_event packet0) health2 = health2 \<and>
   bus host0 0 None (Process_exception packet0) (health2\<lparr>on_exception := True\<rparr>) =
     health2\<lparr>on_exception := True\<rparr> \<and>
   bus host0 0 None (Process_msg packet0) (health2\<lparr>on_msg := True\<rparr>) = health2\<lparr>on_msg := True\<rparr> \<and>
   probe_process host0 proc0 ([], health2) = Inr ([], health2) \<and>
   testProbes host0 0 None (Inr [proc0]) health2 = Inr (health2\<lparr>snapshot := [Send]\<rparr>)"
proof -
  have c: "config health2 ''appsExcluded'' = JArr [JStr ''app'']"
    "config (health2\<lparr>on_exception := True\<rparr>) ''appsExcluded'' = JArr [JStr ''app'']"
    "config (health2\<lparr>on_msg := True\<rparr>) ''appsExcluded'' = JArr [JStr ''app'']"
    by (simp_all add: health2_def)
  have n: "proc_name (process packet0) = ''app''" "name proc0 = ''app''"
    by (simp_all add: packet0_def proc0_def)
  have s: "snapshot health2 = []"
    by (simp add: health2_def health0_def)
  have t: "testProbes host0 0 None (Inr []) health2 = Inr (health2\<lparr>snapshot := [Send]\<rparr>)"
    by (simp add: testProbes_def s)
  from excluded_app_silent [of "''app''" health2 packet0 host0 0 None proc0 "[]" "[proc0]"]
    excluded_app_silent [of "''app''" "health2\<lparr>on_exception := True\<rparr>" packet0 host0 0 None
      proc0 "[]" "[]"]
    excluded_app_silent [of "''app''" "health2\<lparr>on_msg := True\<rparr>" packet0 host0 0 None
      proc0 "[]" "[]"]
    c n t
  show ?thesis by simp
qed

end
